theory Spec2Isabelle
  imports Complex_Main "HOL-Library.AList" "HOL-Library.Multiset"
begin

section \<open>The profile service: batch lookup through a cache with a store behind it\<close>

text \<open>
  This theory embeds \<^verbatim>\<open>hotelReservation/services/profile/server.go\<close>: the handler
  \<^verbatim>\<open>GetProfiles\<close> and the instrumentation wrapper \<^verbatim>\<open>Span\<close> with
  \<^verbatim>\<open>StartSpan\<close> and \<^verbatim>\<open>Finish\<close>.

  The handler talks to three collaborators that are libraries, not code of the service:
  the memcached client, the MongoDB session and the JSON codec. They are the fields of
  the record \<open>env\<close> below; every theorem holds for every environment. What the handler
  does to the outside is recorded as a list of \<open>call\<close>s, in the order the model issues them.
\<close>

subsection \<open>Data\<close>

type_synonym bytes = string

text \<open>
  Modelled from the spec: \<^verbatim>\<open>pb.Hotel\<close> is generated protocol-buffer code that is not
  among the sources. The spec describes a Record as an opaque structured payload with a
  stable Identifier field; the handler itself reads only the field \<^verbatim>\<open>Id\<close>.
\<close>

record Hotel =
  Id :: string
  Payload :: string

text \<open>\<^verbatim>\<open>new(pb.Hotel)\<close>: a fresh record, every field at its zero value.\<close>

definition new_Hotel :: Hotel where
  "new_Hotel = \<lparr>Id = [], Payload = []\<rparr>"

record Request =
  HotelIds :: "string list"

record Result =
  Hotels :: "Hotel list"

text \<open>
  A Go \<^verbatim>\<open>error\<close> is \<open>None\<close> for \<^verbatim>\<open>nil\<close>. The memcached client's errors are a
  datatype, because the handler compares against \<^verbatim>\<open>memcache.ErrCacheMiss\<close>.
\<close>

type_synonym error = "string option"

datatype memc_error = ErrCacheMiss | ErrMemc string

datatype level = Trace | Error | Panic

datatype call =
    StartServerSpan string
  | StartClientSpan string string
  | SpanFinish "string list"
  | Log level string
  | MemcGetMulti "string list"
  | MemcSet string bytes
  | SessionCopy
  | SessionClose
  | MongoFindOne string

datatype outcome = Returned Result error | Panicked string

subsection \<open>Go maps and their iteration order\<close>

text \<open>
  A Go map is an association list with distinct keys: \<^verbatim>\<open>m[k] = v\<close> is
  \<^const>\<open>AList.update\<close> and \<^verbatim>\<open>delete(m, k)\<close> is \<^const>\<open>AList.delete\<close>.
  The order in which \<^verbatim>\<open>range\<close> visits a map is not specified by the language, and
  neither is the order in which goroutines started from such a loop take the mutex. Both are
  an input of the model: a list of choices, each picking the next entry among those left.
  Every list of choices gives a permutation of the entries, and every permutation is given
  by some list of choices.
\<close>

fun go_range :: "nat list \<Rightarrow> 'a list \<Rightarrow> 'a list" where
  "go_range cs [] = []"
| "go_range [] (x # xs) = x # xs"
| "go_range (c # cs) (x # xs) =
     (let i = c mod length (x # xs)
      in (x # xs) ! i # go_range cs (take i (x # xs) @ drop (Suc i) (x # xs)))"

record schedule =
  range_resMap :: "nat list"
  range_profileMap :: "nat list"

subsection \<open>The collaborators\<close>

text \<open>
  \<^item> \<open>memc_items\<close>: what memcached holds under each key when the batched read arrives.
  \<^item> \<open>memc_err\<close>: the error \<^verbatim>\<open>GetMulti\<close> returns for a key list (no servers, malformed
    key, network failure, or none).
  \<^item> \<open>mongo_One\<close>: for \<^verbatim>\<open>c.Find(bson.M{"id": hotelId}).One(&hotelProf)\<close> on a fresh
    record, the record as the call leaves it and the error it returns.
  \<^item> \<open>json_Unmarshal\<close>: for \<^verbatim>\<open>json.Unmarshal(item.Value, hotelProf)\<close> on a fresh record,
    the record as the call leaves it and the error it returns.
  \<^item> \<open>json_Marshal\<close>: the bytes and the error of \<^verbatim>\<open>json.Marshal(hotelProf)\<close>.
\<close>

record env =
  memc_items :: "string \<Rightarrow> bytes option"
  memc_err :: "string list \<Rightarrow> memc_error option"
  mongo_One :: "string \<Rightarrow> Hotel \<times> error"
  json_Unmarshal :: "bytes \<Rightarrow> Hotel \<times> error"
  json_Marshal :: "Hotel \<Rightarrow> bytes \<times> error"

text \<open>
  Modelled from the spec: the memcached client is a library outside the sources. The spec
  (4.2) gives \<^verbatim>\<open>multiGet\<close> as returning a partial mapping of the requested keys, an
  absent key meaning a miss, together with an error that tells a miss from a fault. The
  result is a Go map, so a key requested twice has one entry.
\<close>

definition GetMulti :: "env \<Rightarrow> string list \<Rightarrow> (string \<times> bytes) list \<times> memc_error option" where
  "GetMulti e keys =
     (List.map_filter (\<lambda>k. map_option (Pair k) (memc_items e k)) (remdups keys),
      memc_err e keys)"

subsection \<open>GetProfiles\<close>

record state =
  hotels :: "Hotel list"
  profileMap :: "(string \<times> unit) list"
  calls :: "call list"

text \<open>
  Lines 161 to 166: the loop over \<^verbatim>\<open>req.HotelIds\<close> appends every identifier to
  \<^verbatim>\<open>hotelIds\<close> and enters it in \<^verbatim>\<open>profileMap\<close>.
\<close>

fun collect_ids :: "string list \<Rightarrow> string list \<times> (string \<times> unit) list
    \<Rightarrow> string list \<times> (string \<times> unit) list" where
  "collect_ids [] (hotelIds, pm) = (hotelIds, pm)"
| "collect_ids (hotelId # rest) (hotelIds, pm) =
     collect_ids rest (hotelIds @ [hotelId], AList.update hotelId () pm)"

text \<open>
  Lines 173 to 181: one iteration per entry of \<^verbatim>\<open>resMap\<close>. The value
  \<^verbatim>\<open>json.Unmarshal\<close> returns is dropped by the source, so the model drops it too.
\<close>

fun cache_hits :: "env \<Rightarrow> (string \<times> bytes) list \<Rightarrow> state \<Rightarrow> state" where
  "cache_hits e [] s = s"
| "cache_hits e ((hotelId, v) # rest) s =
     (let hotelProf = fst (json_Unmarshal e v)
      in cache_hits e rest
           (s\<lparr>calls := calls s @ [Log Trace ''memc hit with %v''],
              hotels := hotels s @ [hotelProf],
              profileMap := AList.delete hotelId (profileMap s)\<rparr>))"

text \<open>
  Lines 185 to 212: the body of one goroutine. The calls it makes, in program order; the
  write-back is recorded where the goroutine that performs it is started.
\<close>

definition task_calls :: "env \<Rightarrow> string \<Rightarrow> call list" where
  "task_calls e hotelId =
     (let (hotelProf, err) = mongo_One e hotelId;
          (profJson, err') = json_Marshal e hotelProf
      in [SessionCopy, StartClientSpan ''mongo'' ''profile'', MongoFindOne hotelId,
          SpanFinish [''mongo'', ''profile'']]
         @ (if err \<noteq> None then [Log Error ''Failed get hotels data: ''] else [])
         @ (if err' \<noteq> None then [Log Error ''Failed to marshal hotel [id: %v] with err:'']
            else [])
         @ [MemcSet hotelId profJson, SessionClose])"

definition fetch_task :: "env \<Rightarrow> string \<Rightarrow> state \<Rightarrow> state" where
  "fetch_task e hotelId s =
     (let hotelProf = fst (mongo_One e hotelId)
      in s\<lparr>calls := calls s @ task_calls e hotelId,
           hotels := hotels s @ [hotelProf]\<rparr>)"

text \<open>
  Lines 183 to 215: one goroutine per key of \<^verbatim>\<open>profileMap\<close>, and the barrier. The
  goroutines share \<^verbatim>\<open>hotels\<close> only, under the mutex, so the model runs them one after
  the other in the order of the schedule.
\<close>

fun fetch_tasks :: "env \<Rightarrow> string list \<Rightarrow> state \<Rightarrow> state" where
  "fetch_tasks e [] s = s"
| "fetch_tasks e (hotelId # rest) s = fetch_tasks e rest (fetch_task e hotelId s)"

text \<open>The test of line 170.\<close>

definition cache_fault :: "memc_error option \<Rightarrow> bool" where
  "cache_fault err = (err \<noteq> None \<and> err \<noteq> Some ErrCacheMiss)"

definition GetProfiles :: "env \<Rightarrow> schedule \<Rightarrow> Request \<Rightarrow> outcome \<times> call list" where
  "GetProfiles e sched req =
     (let (hotelIds, pm) = collect_ids (HotelIds req) ([], []);
          (resMap, err) = GetMulti e hotelIds;
          s0 = \<lparr>hotels = [], profileMap = pm,
                calls = [StartServerSpan ''GetProfiles'', Log Trace ''In GetProfiles'',
                         StartClientSpan ''memcached'' ''get_profile'',
                         MemcGetMulti hotelIds,
                         SpanFinish [''memcached'', ''get_profile'']]\<rparr>
      in if cache_fault err then
           (Panicked ''Tried to get hotelIds [%v], but got memmcached error = %s'',
            calls s0 @ [Log Panic ''Tried to get hotelIds [%v], but got memmcached error = %s'',
                        SpanFinish [''GetProfiles'']])
         else
           (let s1 = cache_hits e (go_range (range_resMap sched) resMap) s0;
                s2 = fetch_tasks e
                       (go_range (range_profileMap sched) (map fst (profileMap s1))) s1
            in (Returned \<lparr>Hotels = hotels s2\<rparr> None,
                calls s2 @ [Log Trace ''In GetProfiles after getting resp'',
                            SpanFinish [''GetProfiles'']])))"

text \<open>What a run asked of the store and of the cache.\<close>

definition store_fetches :: "call list \<Rightarrow> string list" where
  "store_fetches cs = List.map_filter (\<lambda>c. case c of MongoFindOne k \<Rightarrow> Some k | _ \<Rightarrow> None) cs"

definition write_backs :: "call list \<Rightarrow> (string \<times> bytes) list" where
  "write_backs cs = List.map_filter (\<lambda>c. case c of MemcSet k v \<Rightarrow> Some (k, v) | _ \<Rightarrow> None) cs"

definition cache_reads :: "call list \<Rightarrow> string list list" where
  "cache_reads cs = List.map_filter (\<lambda>c. case c of MemcGetMulti ks \<Rightarrow> Some ks | _ \<Rightarrow> None) cs"

text \<open>
  The record the handler produces for one identifier: decoded from the cache when the cache
  holds the key, and otherwise as the store query left it.
\<close>

definition record_for :: "env \<Rightarrow> string \<Rightarrow> Hotel" where
  "record_for e k =
     (case memc_items e k of Some v \<Rightarrow> fst (json_Unmarshal e v)
                           | None \<Rightarrow> fst (mongo_One e k))"

subsection \<open>Span\<close>








subsection \<open>Concrete environments\<close>

text \<open>
  A small codec for the examples: a record is encoded as its identifier, a bar, and its
  payload; bytes without a bar do not decode and leave the fresh record as it was.
\<close>

definition enc :: "Hotel \<Rightarrow> bytes \<times> error" where
  "enc h = (Id h @ ''|'' @ Payload h, None)"

definition dec :: "bytes \<Rightarrow> Hotel \<times> error" where
  "dec bs =
     (if CHR ''|'' \<in> set bs
      then (\<lparr>Id = takeWhile (\<lambda>c. c \<noteq> CHR ''|'') bs,
             Payload = tl (dropWhile (\<lambda>c. c \<noteq> CHR ''|'') bs)\<rparr>, None)
      else (new_Hotel, Some ''invalid character looking for beginning of value''))"

text \<open>
  The store of the examples holds \<open>h1\<close> and \<open>h2\<close>; any other query ends in
  \<^verbatim>\<open>mgo.ErrNotFound\<close> and leaves the fresh record untouched.
\<close>

definition store_One :: "string \<Rightarrow> Hotel \<times> error" where
  "store_One k =
     (if k = ''h1'' then (\<lparr>Id = ''h1'', Payload = ''one''\<rparr>, None)
      else if k = ''h2'' then (\<lparr>Id = ''h2'', Payload = ''two''\<rparr>, None)
      else (new_Hotel, Some ''not found''))"

text \<open>The cache of the scenarios in the spec's section 8: it holds \<open>h2\<close> only.\<close>

definition env_warm :: env where
  "env_warm = \<lparr>memc_items = (\<lambda>k. if k = ''h2'' then Some ''h2|two'' else None),
               memc_err = (\<lambda>keys. None),
               mongo_One = store_One, json_Unmarshal = dec, json_Marshal = enc\<rparr>"

text \<open>The cache holds bytes under \<open>h1\<close> that do not decode.\<close>

definition env_garbled :: env where
  "env_garbled = \<lparr>memc_items = (\<lambda>k. if k = ''h1'' then Some ''garbage'' else None),
                  memc_err = (\<lambda>keys. None),
                  mongo_One = store_One, json_Unmarshal = dec, json_Marshal = enc\<rparr>"

text \<open>No memcached server answers.\<close>

definition env_down :: env where
  "env_down = \<lparr>memc_items = (\<lambda>k. None),
               memc_err = (\<lambda>keys. Some (ErrMemc ''memcache: no servers configured or available'')),
               mongo_One = store_One, json_Unmarshal = dec, json_Marshal = enc\<rparr>"

text \<open>An empty cache, and an encoder that fails on every record and returns no bytes.\<close>

definition env_unencodable :: env where
  "env_unencodable = \<lparr>memc_items = (\<lambda>k. None),
                      memc_err = (\<lambda>keys. None),
                      mongo_One = store_One, json_Unmarshal = dec,
                      json_Marshal = (\<lambda>h. ([], Some ''json: unsupported value''))\<rparr>"

text \<open>
  Requests: the first scenario of the spec's section 8; the same with an identifier the
  store does not hold; and three single identifiers.
\<close>

definition req_dup :: Request where
  "req_dup = \<lparr>HotelIds = [''h1'', ''h2'', ''h1'']\<rparr>"

definition req_mixed :: Request where
  "req_mixed = \<lparr>HotelIds = [''h1'', ''h2'', ''h1'', ''h3'']\<rparr>"

definition req_h1 :: Request where
  "req_h1 = \<lparr>HotelIds = [''h1'']\<rparr>"

definition req_h2 :: Request where
  "req_h2 = \<lparr>HotelIds = [''h2'']\<rparr>"

definition req_h3 :: Request where
  "req_h3 = \<lparr>HotelIds = [''h3'']\<rparr>"

definition in_order :: schedule where
  "in_order = \<lparr>range_resMap = [], range_profileMap = []\<rparr>"

definition last_first :: schedule where
  "last_first = \<lparr>range_resMap = [1, 1, 1], range_profileMap = [1, 1, 1]\<rparr>"









section \<open>Properties of the model\<close>

subsection \<open>Iteration order\<close>

lemma mset_pick: "i < length ys \<Longrightarrow> mset (ys ! i # take i ys @ drop (Suc i) ys) = mset ys"
proof -
  assume i: "i < length ys"
  have "mset ys = mset (take i ys @ ys ! i # drop (Suc i) ys)"
    using id_take_nth_drop[OF i] by simp
  then show ?thesis by simp
qed

lemma go_range_mset: "mset (go_range cs xs) = mset xs"
proof (induction cs xs rule: go_range.induct)
  case (3 c cs x xs)
  let ?ys = "x # xs"
  let ?i = "c mod length ?ys"
  have i: "?i < length ?ys" by simp
  have "mset (go_range (c # cs) ?ys) = mset (?ys ! ?i # take ?i ?ys @ drop (Suc ?i) ?ys)"
    using 3 by (simp add: Let_def)
  also have "\<dots> = mset ?ys" using i by (rule mset_pick)
  finally show ?case .
qed simp_all

lemma collect_ids_eq:
  "collect_ids ids (hs, pm) = (hs @ ids, fold (\<lambda>k. AList.update k ()) ids pm)"
  by (induction ids arbitrary: hs pm) simp_all

lemma fold_update_keys:
  "distinct (map fst pm) \<Longrightarrow> distinct (map fst (fold (\<lambda>k. AList.update k ()) ids pm))"
  "set (map fst (fold (\<lambda>k. AList.update k ()) ids pm)) = set (map fst pm) \<union> set ids"
  by (induction ids arbitrary: pm) (auto simp: distinct_update dom_update)

lemma go_range_set: "set (go_range cs xs) = set xs"
  using go_range_mset[of cs xs] by (rule mset_eq_setD)

lemma go_range_distinct_map: "distinct (map f (go_range cs xs)) = distinct (map f xs)"
proof -
  have "mset (map f (go_range cs xs)) = mset (map f xs)"
    by (simp add: go_range_mset)
  then show ?thesis by (rule mset_eq_imp_distinct_iff)
qed

lemma GetMulti_fst_keys:
  "map fst (fst (GetMulti e keys)) = filter (\<lambda>k. memc_items e k \<noteq> None) (remdups keys)"
proof -
  have "map fst (List.map_filter (\<lambda>k. map_option (Pair k) (memc_items e k)) xs)
        = filter (\<lambda>k. memc_items e k \<noteq> None) xs" for xs
    by (induction xs) auto
  then show ?thesis by (simp add: GetMulti_def)
qed

lemma GetMulti_fst_vals:
  "(k, v) \<in> set (fst (GetMulti e keys)) \<Longrightarrow> memc_items e k = Some v"
  by (auto simp: GetMulti_def List.map_filter_def)

lemma GetMulti_snd: "snd (GetMulti e keys) = memc_err e keys"
  by (simp add: GetMulti_def)

lemma cache_hits_hotels:
  "hotels (cache_hits e its s) = hotels s @ map (\<lambda>kv. fst (json_Unmarshal e (snd kv))) its"
  by (induction e its s rule: cache_hits.induct) (simp_all add: Let_def)

lemma cache_hits_profileMap:
  "map fst (profileMap (cache_hits e its s))
   = filter (\<lambda>k. k \<notin> fst ` set its) (map fst (profileMap s))"
proof (induction e its s rule: cache_hits.induct)
  case (2 e hotelId v rest s)
  then show ?case
    by (auto simp: Let_def delete_keys removeAll_filter_not_eq intro!: filter_cong)
qed simp

lemma cache_hits_calls:
  "calls (cache_hits e its s) = calls s @ replicate (length its) (Log Trace ''memc hit with %v'')"
  by (induction e its s rule: cache_hits.induct) (simp_all add: Let_def replicate_append_same)

lemma fetch_tasks_hotels:
  "hotels (fetch_tasks e ks s) = hotels s @ map (\<lambda>k. fst (mongo_One e k)) ks"
  by (induction e ks s rule: fetch_tasks.induct) (simp_all add: fetch_task_def Let_def)

lemma fetch_tasks_calls:
  "calls (fetch_tasks e ks s) = calls s @ concat (map (task_calls e) ks)"
  by (induction e ks s rule: fetch_tasks.induct) (simp_all add: fetch_task_def Let_def)

lemma store_fetches_append: "store_fetches (xs @ ys) = store_fetches xs @ store_fetches ys"
  by (simp add: store_fetches_def List.map_filter_def)

lemma write_backs_append: "write_backs (xs @ ys) = write_backs xs @ write_backs ys"
  by (simp add: write_backs_def List.map_filter_def)

lemma cache_reads_append: "cache_reads (xs @ ys) = cache_reads xs @ cache_reads ys"
  by (simp add: cache_reads_def List.map_filter_def)

lemma task_calls_projections:
  "store_fetches (task_calls e k) = [k]"
  "write_backs (task_calls e k) = [(k, fst (json_Marshal e (fst (mongo_One e k))))]"
  "cache_reads (task_calls e k) = []"
  by (simp_all add: task_calls_def store_fetches_def write_backs_def cache_reads_def
        List.map_filter_def split: prod.splits)

lemma tasks_projections:
  "store_fetches (concat (map (task_calls e) ks)) = ks"
  "write_backs (concat (map (task_calls e) ks))
   = map (\<lambda>k. (k, fst (json_Marshal e (fst (mongo_One e k))))) ks"
  "cache_reads (concat (map (task_calls e) ks)) = []"
  by (induction ks)
     (simp_all add: store_fetches_append write_backs_append cache_reads_append
        task_calls_projections,
      simp_all add: store_fetches_def write_backs_def cache_reads_def List.map_filter_def)

lemma replicate_projections:
  "store_fetches (replicate n (Log l m)) = []"
  "write_backs (replicate n (Log l m)) = []"
  "cache_reads (replicate n (Log l m)) = []"
  by (induction n)
     (simp_all add: store_fetches_def write_backs_def cache_reads_def List.map_filter_def)

subsection \<open>What a run of the handler is\<close>

lemma GetProfiles_fault:
  assumes "cache_fault (memc_err e (HotelIds req))"
  shows "GetProfiles e sched req =
     (Panicked ''Tried to get hotelIds [%v], but got memmcached error = %s'',
      [StartServerSpan ''GetProfiles'', Log Trace ''In GetProfiles'',
       StartClientSpan ''memcached'' ''get_profile'', MemcGetMulti (HotelIds req),
       SpanFinish [''memcached'', ''get_profile''],
       Log Panic ''Tried to get hotelIds [%v], but got memmcached error = %s'',
       SpanFinish [''GetProfiles'']])"
  using assms by (simp add: GetProfiles_def collect_ids_eq GetMulti_def)

lemma GetProfiles_run:
  assumes ok: "\<not> cache_fault (memc_err e (HotelIds req))"
  obtains hits pend where
    "fst (GetProfiles e sched req) = Returned \<lparr>Hotels = map (record_for e) (hits @ pend)\<rparr> None"
    "snd (GetProfiles e sched req) =
       [StartServerSpan ''GetProfiles'', Log Trace ''In GetProfiles'',
        StartClientSpan ''memcached'' ''get_profile'', MemcGetMulti (HotelIds req),
        SpanFinish [''memcached'', ''get_profile'']]
       @ replicate (length hits) (Log Trace ''memc hit with %v'')
       @ concat (map (task_calls e) pend)
       @ [Log Trace ''In GetProfiles after getting resp'', SpanFinish [''GetProfiles'']]"
    "distinct (hits @ pend)"
    "set hits = {k \<in> set (HotelIds req). memc_items e k \<noteq> None}"
    "set pend = {k \<in> set (HotelIds req). memc_items e k = None}"
proof -
  define ids where "ids = HotelIds req"
  define pm where "pm = fold (\<lambda>k. AList.update k ()) ids ([] :: (string \<times> unit) list)"
  define resMap where "resMap = fst (GetMulti e ids)"
  define its where "its = go_range (range_resMap sched) resMap"
  define s0 where "s0 = \<lparr>hotels = [], profileMap = pm,
                calls = [StartServerSpan ''GetProfiles'', Log Trace ''In GetProfiles'',
                         StartClientSpan ''memcached'' ''get_profile'',
                         MemcGetMulti ids,
                         SpanFinish [''memcached'', ''get_profile'']]\<rparr>"
  define s1 where "s1 = cache_hits e its s0"
  define pend where "pend = go_range (range_profileMap sched) (map fst (profileMap s1))"
  define s2 where "s2 = fetch_tasks e pend s1"
  define hits where "hits = map fst its"
  have run: "GetProfiles e sched req =
      (Returned \<lparr>Hotels = hotels s2\<rparr> None,
       calls s2 @ [Log Trace ''In GetProfiles after getting resp'', SpanFinish [''GetProfiles'']])"
    using ok
    by (simp add: GetProfiles_def collect_ids_eq GetMulti_snd split_beta Let_def
          ids_def pm_def resMap_def its_def s0_def s1_def pend_def s2_def)
  have pm_keys: "distinct (map fst pm)" "set (map fst pm) = set ids"
    using fold_update_keys[where pm="[]" and ids=ids] by (simp_all add: pm_def)
  have res_keys: "map fst resMap = filter (\<lambda>k. memc_items e k \<noteq> None) (remdups ids)"
    by (simp add: resMap_def GetMulti_fst_keys)
  have hits_set: "set hits = {k \<in> set ids. memc_items e k \<noteq> None}"
    unfolding hits_def its_def
    by (simp only: set_map go_range_set) (auto simp flip: set_map simp: res_keys)
  have hits_dist: "distinct hits"
    unfolding hits_def its_def by (simp add: go_range_distinct_map res_keys)
  have pm1: "map fst (profileMap s1) = filter (\<lambda>k. k \<notin> set hits) (map fst pm)"
    by (simp add: s1_def cache_hits_profileMap s0_def hits_def)
  have pend_set: "set pend = {k \<in> set ids. memc_items e k = None}"
    unfolding pend_def by (auto simp: go_range_set pm1 pm_keys hits_set simp del: set_map)
  have pend_dist: "distinct pend"
    using go_range_distinct_map[of "\<lambda>x. x" "range_profileMap sched" "map fst (profileMap s1)"]
    by (simp add: pend_def pm1 pm_keys)
  have its_vals: "fst (json_Unmarshal e (snd kv)) = record_for e (fst kv)" if "kv \<in> set its" for kv
  proof -
    from that have "(fst kv, snd kv) \<in> set (fst (GetMulti e ids))"
      by (simp add: its_def go_range_set resMap_def)
    then have "memc_items e (fst kv) = Some (snd kv)" by (rule GetMulti_fst_vals)
    then show ?thesis by (simp add: record_for_def)
  qed
  have pend_vals: "fst (mongo_One e k) = record_for e k" if "k \<in> set pend" for k
    using that by (simp add: pend_set record_for_def)
  have h: "hotels s2 = map (record_for e) (hits @ pend)"
    by (simp add: s2_def fetch_tasks_hotels s1_def cache_hits_hotels s0_def hits_def
          its_vals pend_vals cong: map_cong)
  have c: "calls s2 = calls s0 @ replicate (length hits) (Log Trace ''memc hit with %v'')
       @ concat (map (task_calls e) pend)"
    by (simp add: s2_def fetch_tasks_calls s1_def cache_hits_calls hits_def)
  show thesis
  proof (rule that[of hits pend])
    show "fst (GetProfiles e sched req) = Returned \<lparr>Hotels = map (record_for e) (hits @ pend)\<rparr> None"
      by (simp add: run h)
    show "snd (GetProfiles e sched req) =
       [StartServerSpan ''GetProfiles'', Log Trace ''In GetProfiles'',
        StartClientSpan ''memcached'' ''get_profile'', MemcGetMulti (HotelIds req),
        SpanFinish [''memcached'', ''get_profile'']]
       @ replicate (length hits) (Log Trace ''memc hit with %v'')
       @ concat (map (task_calls e) pend)
       @ [Log Trace ''In GetProfiles after getting resp'', SpanFinish [''GetProfiles'']]"
      by (simp add: run c s0_def ids_def)
    show "distinct (hits @ pend)"
      using hits_dist pend_dist by (auto simp: hits_set pend_set)
    show "set hits = {k \<in> set (HotelIds req). memc_items e k \<noteq> None}"
      by (simp add: hits_set ids_def)
    show "set pend = {k \<in> set (HotelIds req). memc_items e k = None}"
      by (simp add: pend_set ids_def)
  qed
qed

lemma distinct_count_list: "distinct xs \<Longrightarrow> count_list xs k = (if k \<in> set xs then 1 else 0)"
  by (induction xs) auto

lemma projections_of_run:
  assumes c: "cs =
       [StartServerSpan ''GetProfiles'', Log Trace ''In GetProfiles'',
        StartClientSpan ''memcached'' ''get_profile'', MemcGetMulti ids,
        SpanFinish [''memcached'', ''get_profile'']]
       @ replicate n (Log Trace ''memc hit with %v'')
       @ concat (map (task_calls e) pend)
       @ [Log Trace ''In GetProfiles after getting resp'', SpanFinish [''GetProfiles'']]"
  shows "store_fetches cs = pend"
    and "write_backs cs = map (\<lambda>k. (k, fst (json_Marshal e (fst (mongo_One e k))))) pend"
    and "cache_reads cs = [ids]"
proof -
  have pre: "store_fetches [StartServerSpan ''GetProfiles'', Log Trace ''In GetProfiles'',
        StartClientSpan ''memcached'' ''get_profile'', MemcGetMulti ids,
        SpanFinish [''memcached'', ''get_profile'']] = []"
     "write_backs [StartServerSpan ''GetProfiles'', Log Trace ''In GetProfiles'',
        StartClientSpan ''memcached'' ''get_profile'', MemcGetMulti ids,
        SpanFinish [''memcached'', ''get_profile'']] = []"
     "cache_reads [StartServerSpan ''GetProfiles'', Log Trace ''In GetProfiles'',
        StartClientSpan ''memcached'' ''get_profile'', MemcGetMulti ids,
        SpanFinish [''memcached'', ''get_profile'']] = [ids]"
    by (simp_all add: store_fetches_def write_backs_def cache_reads_def List.map_filter_def)
  have post: "store_fetches [Log Trace ''In GetProfiles after getting resp'', SpanFinish [''GetProfiles'']] = []"
    "write_backs [Log Trace ''In GetProfiles after getting resp'', SpanFinish [''GetProfiles'']] = []"
    "cache_reads [Log Trace ''In GetProfiles after getting resp'', SpanFinish [''GetProfiles'']] = []"
    by (simp_all add: store_fetches_def write_backs_def cache_reads_def List.map_filter_def)
  show "store_fetches cs = pend"
    unfolding c store_fetches_append pre post tasks_projections replicate_projections by simp
  show "write_backs cs = map (\<lambda>k. (k, fst (json_Marshal e (fst (mongo_One e k))))) pend"
    unfolding c write_backs_append pre post tasks_projections replicate_projections by simp
  show "cache_reads cs = [ids]"
    unfolding c cache_reads_append pre post tasks_projections replicate_projections by simp
qed

lemma run_projections:
  assumes "\<not> cache_fault (memc_err e (HotelIds req))"
  obtains hits pend where
    "fst (GetProfiles e sched req) = Returned \<lparr>Hotels = map (record_for e) (hits @ pend)\<rparr> None"
    "store_fetches (snd (GetProfiles e sched req)) = pend"
    "write_backs (snd (GetProfiles e sched req))
       = map (\<lambda>k. (k, fst (json_Marshal e (fst (mongo_One e k))))) pend"
    "set (concat (map (task_calls e) pend)) \<subseteq> set (snd (GetProfiles e sched req))"
    "distinct (hits @ pend)"
    "set hits = {k \<in> set (HotelIds req). memc_items e k \<noteq> None}"
    "set pend = {k \<in> set (HotelIds req). memc_items e k = None}"
proof (rule GetProfiles_run[OF assms, of sched])
  fix hits pend
  assume r: "fst (GetProfiles e sched req) = Returned \<lparr>Hotels = map (record_for e) (hits @ pend)\<rparr> None"
    and c: "snd (GetProfiles e sched req) =
       [StartServerSpan ''GetProfiles'', Log Trace ''In GetProfiles'',
        StartClientSpan ''memcached'' ''get_profile'', MemcGetMulti (HotelIds req),
        SpanFinish [''memcached'', ''get_profile'']]
       @ replicate (length hits) (Log Trace ''memc hit with %v'')
       @ concat (map (task_calls e) pend)
       @ [Log Trace ''In GetProfiles after getting resp'', SpanFinish [''GetProfiles'']]"
    and d: "distinct (hits @ pend)"
    and h: "set hits = {k \<in> set (HotelIds req). memc_items e k \<noteq> None}"
    and p: "set pend = {k \<in> set (HotelIds req). memc_items e k = None}"
  have sub: "set (concat (map (task_calls e) pend)) \<subseteq> set (snd (GetProfiles e sched req))"
    unfolding c by (simp only: set_append) blast
  show thesis
    using that[OF r projections_of_run(1)[OF c] projections_of_run(2)[OF c] sub d h p] .
qed

lemma cache_reads_run: "cache_reads (snd (GetProfiles e sched req)) = [HotelIds req]"
proof (cases "cache_fault (memc_err e (HotelIds req))")
  case True
  then show ?thesis
    by (simp add: GetProfiles_fault cache_reads_def List.map_filter_def)
next
  case False
  show ?thesis
  proof (rule GetProfiles_run[OF False, of sched])
    fix hits pend
    assume c: "snd (GetProfiles e sched req) =
       [StartServerSpan ''GetProfiles'', Log Trace ''In GetProfiles'',
        StartClientSpan ''memcached'' ''get_profile'', MemcGetMulti (HotelIds req),
        SpanFinish [''memcached'', ''get_profile'']]
       @ replicate (length hits) (Log Trace ''memc hit with %v'')
       @ concat (map (task_calls e) pend)
       @ [Log Trace ''In GetProfiles after getting resp'', SpanFinish [''GetProfiles'']]"
    show ?thesis by (rule projections_of_run(3)[OF c])
  qed
qed

section \<open>The claims\<close>

text \<open>
  The definitions a concrete run unfolds to.
\<close>

lemmas run_defs =
  GetProfiles_def GetMulti_def cache_fault_def List.map_filter_def fetch_task_def
  task_calls_def Let_def store_fetches_def write_backs_def cache_reads_def

text \<open>
  Claim C1, as the code has it. When the cache read does not fault and the store query fails
  for an identifier \<open>h\<close> the cache does not hold, the call returns a result with a nil
  error, the failure is logged, and the task appends its record all the same: the record as
  the failed query left it is in the result, next to the record of every other identifier
  of the request.
\<close>

theorem C1_failed_fetch_still_appends:
  assumes "\<not> cache_fault (memc_err e (HotelIds req))"
    and "h \<in> set (HotelIds req)"
    and "memc_items e h = None"
    and "snd (mongo_One e h) \<noteq> None"
  shows "\<exists>res. fst (GetProfiles e sched req) = Returned res None
           \<and> fst (mongo_One e h) \<in> set (Hotels res)
           \<and> (\<forall>k \<in> set (HotelIds req). record_for e k \<in> set (Hotels res))
           \<and> Log Error ''Failed get hotels data: '' \<in> set (snd (GetProfiles e sched req))"
proof (rule run_projections[OF assms(1), of sched])
  fix hits pend
  assume r: "fst (GetProfiles e sched req)
               = Returned \<lparr>Hotels = map (record_for e) (hits @ pend)\<rparr> None"
    and sub: "set (concat (map (task_calls e) pend)) \<subseteq> set (snd (GetProfiles e sched req))"
    and hs: "set hits = {k \<in> set (HotelIds req). memc_items e k \<noteq> None}"
    and ps: "set pend = {k \<in> set (HotelIds req). memc_items e k = None}"
  have hp: "h \<in> set pend" using assms(2,3) ps by simp
  have all: "set (hits @ pend) = set (HotelIds req)" using hs ps by auto
  have "record_for e h = fst (mongo_One e h)" using assms(3) by (simp add: record_for_def)
  then have a: "fst (mongo_One e h) \<in> set (map (record_for e) (hits @ pend))"
    using hp by force
  have b: "\<forall>k \<in> set (HotelIds req). record_for e k \<in> set (map (record_for e) (hits @ pend))"
    using all by (metis image_eqI set_map)
  have "Log Error ''Failed get hotels data: '' \<in> set (task_calls e h)"
    using assms(4) by (simp add: task_calls_def split_beta)
  then have "Log Error ''Failed get hotels data: '' \<in> set (concat (map (task_calls e) pend))"
    using hp by auto
  then have c: "Log Error ''Failed get hotels data: '' \<in> set (snd (GetProfiles e sched req))"
    using sub by blast
  show ?thesis using r a b c by simp
qed

text \<open>
  The hypotheses of C1 hold for the identifier \<open>h3\<close> of the request \<open>h1, h2, h1, h3\<close>:
  the cache holds \<open>h2\<close> only and the store has no \<open>h3\<close>.
\<close>

theorem C1_failed_fetch_still_appends_witness:
  "\<not> cache_fault (memc_err env_warm (HotelIds req_mixed))
   \<and> ''h3'' \<in> set (HotelIds req_mixed)
   \<and> memc_items env_warm ''h3'' = None
   \<and> snd (mongo_One env_warm ''h3'') \<noteq> None
   \<and> (\<exists>res. fst (GetProfiles env_warm last_first req_mixed) = Returned res None
           \<and> fst (mongo_One env_warm ''h3'') \<in> set (Hotels res)
           \<and> (\<forall>k \<in> set (HotelIds req_mixed). record_for env_warm k \<in> set (Hotels res))
           \<and> Log Error ''Failed get hotels data: ''
                \<in> set (snd (GetProfiles env_warm last_first req_mixed)))"
proof -
  have a: "\<not> cache_fault (memc_err env_warm (HotelIds req_mixed))"
    by (simp add: cache_fault_def env_warm_def)
  have b: "''h3'' \<in> set (HotelIds req_mixed)" by (simp add: req_mixed_def)
  have c: "memc_items env_warm ''h3'' = None" by (simp add: env_warm_def)
  have d: "snd (mongo_One env_warm ''h3'') \<noteq> None" by (simp add: env_warm_def store_One_def)
  show ?thesis
    using a b c d C1_failed_fetch_still_appends[OF a b c d, of last_first] by blast
qed

text \<open>
  Claim C1 as the spec states it fails on its own scenario. The request is \<open>h3\<close> alone,
  the cache misses and the store answers not found: the call returns a result that holds
  one record, the fresh empty one, and not the empty result.
\<close>

theorem C1_counterexample:
  "memc_items env_warm ''h3'' = None
   \<and> mongo_One env_warm ''h3'' = (new_Hotel, Some ''not found'')
   \<and> fst (GetProfiles env_warm in_order req_h3) = Returned \<lparr>Hotels = [new_Hotel]\<rparr> None
   \<and> fst (GetProfiles env_warm in_order req_h3) \<noteq> Returned \<lparr>Hotels = []\<rparr> None"
  by (simp add: run_defs env_warm_def store_One_def enc_def in_order_def req_h3_def)

text \<open>
  Claim C2, as the code has it. When the cache read does not fault and the cache holds bytes
  under \<open>h\<close> that fail to decode, the batch is not aborted, the record as the decoder
  left it is in the result, and the store is not asked for \<open>h\<close>: the identifier left
  the pending set like any other hit.
\<close>

theorem C2_undecodable_hit_is_a_hit:
  assumes "\<not> cache_fault (memc_err e (HotelIds req))"
    and "h \<in> set (HotelIds req)"
    and "memc_items e h = Some v"
    and "snd (json_Unmarshal e v) \<noteq> None"
  shows "\<exists>res. fst (GetProfiles e sched req) = Returned res None
           \<and> fst (json_Unmarshal e v) \<in> set (Hotels res)
           \<and> h \<notin> set (store_fetches (snd (GetProfiles e sched req)))"
proof (rule run_projections[OF assms(1), of sched])
  fix hits pend
  assume r: "fst (GetProfiles e sched req)
               = Returned \<lparr>Hotels = map (record_for e) (hits @ pend)\<rparr> None"
    and sf: "store_fetches (snd (GetProfiles e sched req)) = pend"
    and hs: "set hits = {k \<in> set (HotelIds req). memc_items e k \<noteq> None}"
    and ps: "set pend = {k \<in> set (HotelIds req). memc_items e k = None}"
  have hh: "h \<in> set hits" using assms(2,3) hs by simp
  have "record_for e h = fst (json_Unmarshal e v)" using assms(3) by (simp add: record_for_def)
  then have a: "fst (json_Unmarshal e v) \<in> set (map (record_for e) (hits @ pend))"
    using hh by force
  have b: "h \<notin> set pend" using assms(3) ps by simp
  show ?thesis using r a b sf by simp
qed

text \<open>
  The hypotheses of C2 hold in the environment whose cache holds \<open>garbage\<close> under
  \<open>h1\<close>.
\<close>

theorem C2_undecodable_hit_is_a_hit_witness:
  "\<not> cache_fault (memc_err env_garbled (HotelIds req_h1))
   \<and> ''h1'' \<in> set (HotelIds req_h1)
   \<and> memc_items env_garbled ''h1'' = Some ''garbage''
   \<and> snd (json_Unmarshal env_garbled ''garbage'') \<noteq> None
   \<and> (\<exists>res. fst (GetProfiles env_garbled in_order req_h1) = Returned res None
           \<and> fst (json_Unmarshal env_garbled ''garbage'') \<in> set (Hotels res)
           \<and> ''h1'' \<notin> set (store_fetches (snd (GetProfiles env_garbled in_order req_h1))))"
proof -
  have a: "\<not> cache_fault (memc_err env_garbled (HotelIds req_h1))"
    by (simp add: cache_fault_def env_garbled_def)
  have b: "''h1'' \<in> set (HotelIds req_h1)" by (simp add: req_h1_def)
  have c: "memc_items env_garbled ''h1'' = Some ''garbage''" by (simp add: env_garbled_def)
  have d: "snd (json_Unmarshal env_garbled ''garbage'') \<noteq> None"
    by (simp add: env_garbled_def dec_def)
  show ?thesis
    using a b c d C2_undecodable_hit_is_a_hit[OF a b c d, of in_order] by blast
qed

text \<open>
  Claim C2 as the spec states it fails there: the payload does not decode, yet the result
  is the one fresh empty record built from it, and no store query is issued although the
  store holds \<open>h1\<close>.
\<close>

theorem C2_counterexample:
  "memc_items env_garbled ''h1'' = Some ''garbage''
   \<and> snd (json_Unmarshal env_garbled ''garbage'') \<noteq> None
   \<and> fst (GetProfiles env_garbled in_order req_h1) = Returned \<lparr>Hotels = [new_Hotel]\<rparr> None
   \<and> store_fetches (snd (GetProfiles env_garbled in_order req_h1)) = []"
  by (simp add: run_defs env_garbled_def dec_def in_order_def req_h1_def)

text \<open>
  Claim C3. Whenever the handler returns, the records of the result are the records of a
  duplicate-free list of identifiers of the request, each identifier giving the one record
  the handler produces for it, from the cache or from the store. So no identifier
  contributes two records, however often the request names it, and the result holds at most
  as many records as the request has distinct identifiers.
\<close>

theorem C3_one_record_per_identifier:
  assumes "fst (GetProfiles e sched req) = Returned res err"
  shows "\<exists>ks. distinct ks \<and> set ks \<subseteq> set (HotelIds req)
            \<and> Hotels res = map (record_for e) ks
            \<and> length (Hotels res) \<le> card (set (HotelIds req))"
proof -
  have ok: "\<not> cache_fault (memc_err e (HotelIds req))"
  proof
    assume "cache_fault (memc_err e (HotelIds req))"
    then have "fst (GetProfiles e sched req)
                 = Panicked ''Tried to get hotelIds [%v], but got memmcached error = %s''"
      by (simp only: GetProfiles_fault fst_conv)
    with assms show False by simp
  qed
  show ?thesis
  proof (rule run_projections[OF ok, of sched])
    fix hits pend
    assume r: "fst (GetProfiles e sched req)
                 = Returned \<lparr>Hotels = map (record_for e) (hits @ pend)\<rparr> None"
      and d: "distinct (hits @ pend)"
      and hs: "set hits = {k \<in> set (HotelIds req). memc_items e k \<noteq> None}"
      and ps: "set pend = {k \<in> set (HotelIds req). memc_items e k = None}"
    have sub: "set (hits @ pend) \<subseteq> set (HotelIds req)" using hs ps by auto
    have eq: "Hotels res = map (record_for e) (hits @ pend)" using r assms by simp
    have "length (hits @ pend) = card (set (hits @ pend))"
      using d by (rule distinct_card[symmetric])
    also have "\<dots> \<le> card (set (HotelIds req))"
      using sub by (rule card_mono[OF finite_set])
    finally have len: "length (Hotels res) \<le> card (set (HotelIds req))"
      using eq by simp
    show ?thesis using d sub eq len by blast
  qed
qed

text \<open>
  The handler returns on the request \<open>h1, h2, h1, h3\<close> with three records, under a
  schedule that visits the last entry first.
\<close>

theorem C3_one_record_per_identifier_witness:
  "fst (GetProfiles env_warm last_first req_mixed)
     = Returned \<lparr>Hotels = [\<lparr>Id = ''h2'', Payload = ''two''\<rparr>, new_Hotel,
                            \<lparr>Id = ''h1'', Payload = ''one''\<rparr>]\<rparr> None
   \<and> (\<exists>ks. distinct ks \<and> set ks \<subseteq> set (HotelIds req_mixed)
          \<and> Hotels \<lparr>Hotels = [\<lparr>Id = ''h2'', Payload = ''two''\<rparr>, new_Hotel,
                               \<lparr>Id = ''h1'', Payload = ''one''\<rparr>]\<rparr>
              = map (record_for env_warm) ks
          \<and> length (Hotels \<lparr>Hotels = [\<lparr>Id = ''h2'', Payload = ''two''\<rparr>, new_Hotel,
                               \<lparr>Id = ''h1'', Payload = ''one''\<rparr>]\<rparr>)
              \<le> card (set (HotelIds req_mixed)))"
proof -
  have a: "fst (GetProfiles env_warm last_first req_mixed)
     = Returned \<lparr>Hotels = [\<lparr>Id = ''h2'', Payload = ''two''\<rparr>, new_Hotel,
                            \<lparr>Id = ''h1'', Payload = ''one''\<rparr>]\<rparr> None"
    by (simp add: run_defs env_warm_def store_One_def enc_def dec_def last_first_def
          req_mixed_def new_Hotel_def)
  show ?thesis
    using a C3_one_record_per_identifier[OF a] by blast
qed

text \<open>
  Claim C4. When the batched read returns an error other than a miss, the call panics, the
  store is never queried, nothing is written back, and the cache was read once: there is no
  retry and no fall-back to the store.
\<close>

theorem C4_cache_fault_aborts:
  assumes "cache_fault (memc_err e (HotelIds req))"
  shows "(\<exists>msg. fst (GetProfiles e sched req) = Panicked msg)
         \<and> store_fetches (snd (GetProfiles e sched req)) = []
         \<and> write_backs (snd (GetProfiles e sched req)) = []
         \<and> cache_reads (snd (GetProfiles e sched req)) = [HotelIds req]"
  by (simp add: GetProfiles_fault[OF assms] store_fetches_def write_backs_def cache_reads_def
        List.map_filter_def)

text \<open>
  The hypothesis of C4 holds when no memcached server answers.
\<close>

theorem C4_cache_fault_aborts_witness:
  "cache_fault (memc_err env_down (HotelIds req_mixed))
   \<and> (\<exists>msg. fst (GetProfiles env_down in_order req_mixed) = Panicked msg)
   \<and> store_fetches (snd (GetProfiles env_down in_order req_mixed)) = []
   \<and> write_backs (snd (GetProfiles env_down in_order req_mixed)) = []
   \<and> cache_reads (snd (GetProfiles env_down in_order req_mixed)) = [HotelIds req_mixed]"
proof -
  have a: "cache_fault (memc_err env_down (HotelIds req_mixed))"
    by (simp add: cache_fault_def env_down_def)
  show ?thesis
    using a C4_cache_fault_aborts[OF a, of in_order] by blast
qed

text \<open>
  Claim C5. When the batched read does not fault, the handler returns, and the store is
  queried exactly once for every identifier of the request the cache does not hold and not
  at all for any other identifier. For such an identifier whose query succeeds, the record
  the query gave is in the result and exactly one write-back names the identifier. When
  the cache holds every identifier of the request, no store query is issued.
\<close>

theorem C5_one_fetch_per_miss:
  assumes "\<not> cache_fault (memc_err e (HotelIds req))"
  shows "\<exists>res. fst (GetProfiles e sched req) = Returned res None
           \<and> (\<forall>k. count_list (store_fetches (snd (GetProfiles e sched req))) k
                   = (if k \<in> set (HotelIds req) \<and> memc_items e k = None then 1 else 0))
           \<and> (\<forall>k \<in> set (HotelIds req).
                  memc_items e k = None \<and> snd (mongo_One e k) = None \<longrightarrow>
                    fst (mongo_One e k) \<in> set (Hotels res)
                    \<and> count_list (map fst (write_backs (snd (GetProfiles e sched req)))) k = 1)
           \<and> ((\<forall>k \<in> set (HotelIds req). memc_items e k \<noteq> None) \<longrightarrow>
                  store_fetches (snd (GetProfiles e sched req)) = [])"
proof (rule run_projections[OF assms, of sched])
  fix hits pend
  assume r: "fst (GetProfiles e sched req)
               = Returned \<lparr>Hotels = map (record_for e) (hits @ pend)\<rparr> None"
    and sf: "store_fetches (snd (GetProfiles e sched req)) = pend"
    and wb: "write_backs (snd (GetProfiles e sched req))
               = map (\<lambda>k. (k, fst (json_Marshal e (fst (mongo_One e k))))) pend"
    and d: "distinct (hits @ pend)"
    and ps: "set pend = {k \<in> set (HotelIds req). memc_items e k = None}"
  have dp: "distinct pend" using d by simp
  have keys: "map fst (write_backs (snd (GetProfiles e sched req))) = pend"
    unfolding wb by (simp add: comp_def)
  have cnt: "count_list pend k = (if k \<in> set (HotelIds req) \<and> memc_items e k = None then 1 else 0)"
    for k
    using distinct_count_list[OF dp, of k] ps by simp
  have rec: "fst (mongo_One e k) \<in> set (map (record_for e) (hits @ pend))"
    if "k \<in> set (HotelIds req)" "memc_items e k = None" for k
  proof -
    have "k \<in> set pend" using that ps by simp
    moreover have "record_for e k = fst (mongo_One e k)"
      using that by (simp add: record_for_def)
    ultimately show ?thesis by force
  qed
  have none: "pend = []" if "\<forall>k \<in> set (HotelIds req). memc_items e k \<noteq> None"
  proof -
    have "set pend = {}" using that ps by auto
    then show ?thesis by simp
  qed
  show ?thesis
    using r cnt rec none by (simp add: sf keys)
qed

text \<open>
  The hypotheses of C5 hold on the spec's scenario, the request \<open>h1, h2, h1\<close> with
  \<open>h2\<close> in the cache and \<open>h1\<close> in the store, and its last part on the request
  \<open>h2\<close>, which the cache answers alone.
\<close>

theorem C5_one_fetch_per_miss_witness:
  "\<not> cache_fault (memc_err env_warm (HotelIds req_dup))
   \<and> ''h1'' \<in> set (HotelIds req_dup)
   \<and> memc_items env_warm ''h1'' = None \<and> snd (mongo_One env_warm ''h1'') = None
   \<and> count_list (store_fetches (snd (GetProfiles env_warm in_order req_dup))) ''h1'' = 1
   \<and> count_list (store_fetches (snd (GetProfiles env_warm in_order req_dup))) ''h2'' = 0
   \<and> count_list (map fst (write_backs (snd (GetProfiles env_warm in_order req_dup)))) ''h1'' = 1
   \<and> (\<exists>res. fst (GetProfiles env_warm in_order req_dup) = Returned res None
          \<and> fst (mongo_One env_warm ''h1'') \<in> set (Hotels res))
   \<and> \<not> cache_fault (memc_err env_warm (HotelIds req_h2))
   \<and> HotelIds req_h2 = [''h2''] \<and> memc_items env_warm ''h2'' \<noteq> None
   \<and> store_fetches (snd (GetProfiles env_warm in_order req_h2)) = []"
proof -
  have a: "\<not> cache_fault (memc_err env_warm (HotelIds req_dup))"
    by (simp add: cache_fault_def env_warm_def)
  have b: "''h1'' \<in> set (HotelIds req_dup)" by (simp add: req_dup_def)
  have b2: "''h2'' \<in> set (HotelIds req_dup)" by (simp add: req_dup_def)
  have c: "memc_items env_warm ''h1'' = None \<and> snd (mongo_One env_warm ''h1'') = None"
    by (simp add: env_warm_def store_One_def)
  have c2: "memc_items env_warm ''h2'' \<noteq> None" by (simp add: env_warm_def)
  have a': "\<not> cache_fault (memc_err env_warm (HotelIds req_h2))"
    by (simp add: cache_fault_def env_warm_def)
  have d: "\<forall>k \<in> set (HotelIds req_h2). memc_items env_warm k \<noteq> None"
    by (simp add: req_h2_def env_warm_def)
  obtain res where r: "fst (GetProfiles env_warm in_order req_dup) = Returned res None"
    and cnt: "\<forall>k. count_list (store_fetches (snd (GetProfiles env_warm in_order req_dup))) k
                   = (if k \<in> set (HotelIds req_dup) \<and> memc_items env_warm k = None
                      then 1 else 0)"
    and suc: "\<forall>k \<in> set (HotelIds req_dup).
                  memc_items env_warm k = None \<and> snd (mongo_One env_warm k) = None \<longrightarrow>
                    fst (mongo_One env_warm k) \<in> set (Hotels res)
                    \<and> count_list (map fst (write_backs
                          (snd (GetProfiles env_warm in_order req_dup)))) k = 1"
    using C5_one_fetch_per_miss[OF a, of in_order] by blast
  have f1: "count_list (store_fetches (snd (GetProfiles env_warm in_order req_dup))) ''h1'' = 1"
    using cnt b c by simp
  have f2: "count_list (store_fetches (snd (GetProfiles env_warm in_order req_dup))) ''h2'' = 0"
    using cnt c2 by simp
  have f3: "fst (mongo_One env_warm ''h1'') \<in> set (Hotels res)
      \<and> count_list (map fst (write_backs (snd (GetProfiles env_warm in_order req_dup)))) ''h1'' = 1"
    using suc b c by blast
  have f4: "store_fetches (snd (GetProfiles env_warm in_order req_h2)) = []"
    using C5_one_fetch_per_miss[OF a', of in_order] d by blast
  have g: "HotelIds req_h2 = [''h2'']" by (simp add: req_h2_def)
  show ?thesis
    using a b c c2 f1 f2 f3 r a' g f4 by blast
qed

text \<open>
  Claim C6, as the code has it. Every run issues exactly one batched cache read, and its
  key list is the identifier list of the request as it came, in its order and with its
  duplicates.
\<close>

theorem C6_one_cache_read_of_the_request_ids:
  "cache_reads (snd (GetProfiles e sched req)) = [HotelIds req]"
  by (rule cache_reads_run)

text \<open>
  Claim C6 as the spec states it fails on the spec's own scenario: the one cache read of the
  request \<open>h1, h2, h1\<close> is passed \<open>h1\<close> twice.
\<close>

theorem C6_counterexample:
  "cache_reads (snd (GetProfiles env_warm in_order req_dup)) = [[''h1'', ''h2'', ''h1'']]
   \<and> \<not> distinct [''h1'', ''h2'', ''h1'']"
  by (simp add: run_defs env_warm_def store_One_def enc_def dec_def in_order_def req_dup_def)




text \<open>
  Claim C8, as the code has it. When the batched read does not fault and the record fetched
  for a missing identifier \<open>k\<close> fails to encode, the failure is logged, the record is in
  the result all the same, and the write-back for \<open>k\<close> is still issued, exactly once,
  with the bytes the encoder returned.
\<close>

theorem C8_write_back_after_failed_encoding:
  assumes "\<not> cache_fault (memc_err e (HotelIds req))"
    and "k \<in> set (HotelIds req)"
    and "memc_items e k = None"
    and "snd (json_Marshal e (fst (mongo_One e k))) \<noteq> None"
  shows "\<exists>res. fst (GetProfiles e sched req) = Returned res None
           \<and> fst (mongo_One e k) \<in> set (Hotels res)
           \<and> Log Error ''Failed to marshal hotel [id: %v] with err:''
                \<in> set (snd (GetProfiles e sched req))
           \<and> count_list (map fst (write_backs (snd (GetProfiles e sched req)))) k = 1
           \<and> (k, fst (json_Marshal e (fst (mongo_One e k))))
                \<in> set (write_backs (snd (GetProfiles e sched req)))"
proof (rule run_projections[OF assms(1), of sched])
  fix hits pend
  assume r: "fst (GetProfiles e sched req)
               = Returned \<lparr>Hotels = map (record_for e) (hits @ pend)\<rparr> None"
    and wb: "write_backs (snd (GetProfiles e sched req))
               = map (\<lambda>k. (k, fst (json_Marshal e (fst (mongo_One e k))))) pend"
    and sub: "set (concat (map (task_calls e) pend)) \<subseteq> set (snd (GetProfiles e sched req))"
    and d: "distinct (hits @ pend)"
    and ps: "set pend = {k \<in> set (HotelIds req). memc_items e k = None}"
  have kp: "k \<in> set pend" using assms(2,3) ps by simp
  have dp: "distinct pend" using d by simp
  have keys: "map fst (write_backs (snd (GetProfiles e sched req))) = pend"
    unfolding wb by (simp add: comp_def)
  have "record_for e k = fst (mongo_One e k)" using assms(3) by (simp add: record_for_def)
  then have a: "fst (mongo_One e k) \<in> set (map (record_for e) (hits @ pend))"
    using kp by force
  have "Log Error ''Failed to marshal hotel [id: %v] with err:'' \<in> set (task_calls e k)"
    using assms(4) by (simp add: task_calls_def split_beta)
  then have "Log Error ''Failed to marshal hotel [id: %v] with err:''
               \<in> set (concat (map (task_calls e) pend))"
    using kp by auto
  then have b: "Log Error ''Failed to marshal hotel [id: %v] with err:''
               \<in> set (snd (GetProfiles e sched req))"
    using sub by blast
  have c: "count_list pend k = 1" using distinct_count_list[OF dp, of k] kp by simp
  have e: "(k, fst (json_Marshal e (fst (mongo_One e k))))
             \<in> set (write_backs (snd (GetProfiles e sched req)))"
    unfolding wb using kp by force
  show ?thesis using r a b c e by (simp add: keys)
qed

text \<open>
  The hypotheses of C8 hold for \<open>h1\<close> with an empty cache and the failing encoder.
\<close>

theorem C8_write_back_after_failed_encoding_witness:
  "\<not> cache_fault (memc_err env_unencodable (HotelIds req_h1))
   \<and> ''h1'' \<in> set (HotelIds req_h1)
   \<and> memc_items env_unencodable ''h1'' = None
   \<and> snd (json_Marshal env_unencodable (fst (mongo_One env_unencodable ''h1''))) \<noteq> None
   \<and> (\<exists>res. fst (GetProfiles env_unencodable in_order req_h1) = Returned res None
           \<and> fst (mongo_One env_unencodable ''h1'') \<in> set (Hotels res)
           \<and> Log Error ''Failed to marshal hotel [id: %v] with err:''
                \<in> set (snd (GetProfiles env_unencodable in_order req_h1))
           \<and> count_list (map fst (write_backs (snd (GetProfiles env_unencodable in_order req_h1))))
                ''h1'' = 1
           \<and> (''h1'', fst (json_Marshal env_unencodable (fst (mongo_One env_unencodable ''h1''))))
                \<in> set (write_backs (snd (GetProfiles env_unencodable in_order req_h1))))"
proof -
  have a: "\<not> cache_fault (memc_err env_unencodable (HotelIds req_h1))"
    by (simp add: cache_fault_def env_unencodable_def)
  have b: "''h1'' \<in> set (HotelIds req_h1)" by (simp add: req_h1_def)
  have c: "memc_items env_unencodable ''h1'' = None" by (simp add: env_unencodable_def)
  have d: "snd (json_Marshal env_unencodable (fst (mongo_One env_unencodable ''h1''))) \<noteq> None"
    by (simp add: env_unencodable_def)
  show ?thesis
    using a b c d C8_write_back_after_failed_encoding[OF a b c d, of in_order] by blast
qed

text \<open>
  Claim C8 as the spec states it fails there: the record of \<open>h1\<close> fails to encode, and
  the cache is still sent a set for \<open>h1\<close>, with no bytes.
\<close>

theorem C8_counterexample:
  "mongo_One env_unencodable ''h1'' = (\<lparr>Id = ''h1'', Payload = ''one''\<rparr>, None)
   \<and> json_Marshal env_unencodable \<lparr>Id = ''h1'', Payload = ''one''\<rparr>
       = ([], Some ''json: unsupported value'')
   \<and> write_backs (snd (GetProfiles env_unencodable in_order req_h1)) = [(''h1'', [])]"
  by (simp add: run_defs env_unencodable_def store_One_def in_order_def req_h1_def)

text \<open>
  Claim C9. A run either returns, and then with a nil error and without a cache fault, or
  panics, and then on a cache fault.
\<close>

theorem C9_error_is_always_nil:
  "(case fst (GetProfiles e sched req) of
      Returned res err \<Rightarrow> err = None \<and> \<not> cache_fault (memc_err e (HotelIds req))
    | Panicked msg \<Rightarrow> cache_fault (memc_err e (HotelIds req)))"
proof (cases "cache_fault (memc_err e (HotelIds req))")
  case True
  then show ?thesis by (simp add: GetProfiles_fault)
next
  case False
  show ?thesis
  proof (rule run_projections[OF False, of sched])
    fix hits pend
    assume "fst (GetProfiles e sched req)
               = Returned \<lparr>Hotels = map (record_for e) (hits @ pend)\<rparr> None"
    then show ?thesis using False by simp
  qed
qed

text \<open>
  Both cases occur: a return with the cache up, a panic with the cache down.
\<close>

theorem C9_error_is_always_nil_witness:
  "(\<exists>res. fst (GetProfiles env_warm in_order req_mixed) = Returned res None)
   \<and> \<not> cache_fault (memc_err env_warm (HotelIds req_mixed))
   \<and> (\<exists>msg. fst (GetProfiles env_down in_order req_mixed) = Panicked msg)
   \<and> cache_fault (memc_err env_down (HotelIds req_mixed))"
  using C9_error_is_always_nil[where e = env_warm and sched = in_order and req = req_mixed]
    C9_error_is_always_nil[where e = env_down and sched = in_order and req = req_mixed]
  by (simp add: cache_fault_def env_warm_def env_down_def split: outcome.splits)



end
